theory Spec2Isabelle
  imports Complex_Main "HOL-Library.Sublist"
begin

section \<open>The deployment stack (infrastructure/arrl-10ghz-web-stack.ts)\<close>

text \<open>
  The repository's processing logic lives in a Lambda handler that is deployed by a CDK
  stack. The stack is a TypeScript constructor that builds a fixed set of resources from
  two environment values, \<open>this.account\<close> and \<open>this.region\<close>. It has no control flow:
  each \<open>new s3.Bucket(this, id, props)\<close> is a record of properties, so the embedding is a
  family of records indexed by account and region.
\<close>

subsection \<open>Values of the CDK library that the stack passes\<close>

text \<open>
  \<open>cdk.Duration\<close> is an amount together with a unit. \<open>Duration.days(n)\<close> and
  \<open>Duration.minutes(n)\<close> are its smart constructors; \<open>toDays()\<close> converts with the
  library's default \<open>integral: true\<close>, which throws when the amount is not a whole
  number of days.
\<close>

datatype TimeUnit = Milliseconds | Seconds | Minutes | Hours | Days

record Duration =
  amount :: nat
  timeUnit :: TimeUnit

definition days :: "nat \<Rightarrow> Duration" where
  "days n = \<lparr>amount = n, timeUnit = Days\<rparr>"

definition minutes :: "nat \<Rightarrow> Duration" where
  "minutes n = \<lparr>amount = n, timeUnit = Minutes\<rparr>"

fun inMillis :: "TimeUnit \<Rightarrow> nat" where
  "inMillis Milliseconds = 1"
| "inMillis Seconds = 1000"
| "inMillis Minutes = 60000"
| "inMillis Hours = 3600000"
| "inMillis Days = 86400000"

datatype cdk_error = NotIntegral

definition toDays :: "Duration \<Rightarrow> cdk_error + nat" where
  "toDays d =
     (let ms = amount d * inMillis (timeUnit d)
      in if ms mod inMillis Days = 0 then Inr (ms div inMillis Days) else Inl NotIntegral)"

datatype HttpMethods = GET | POST | PUT | DELETE | HEAD

datatype RemovalPolicy = DESTROY | RETAIN | SNAPSHOT

datatype BlockPublicAccess = BLOCK_ALL | BLOCK_ACLS

text \<open>
  \<open>s3.LifecycleRule\<close>: every property is optional. The stack sets \<open>id\<close> and
  \<open>expiration\<close>; \<open>enabled\<close> and \<open>prefix\<close> are the two other properties that decide
  whether a rule reaches an object, and the stack leaves both unset.
\<close>

record LifecycleRule =
  ruleId :: "string option"
  enabled :: "bool option"
  expiration :: "Duration option"
  rulePrefix :: "string option"

record CorsRule =
  allowedMethods :: "HttpMethods list"
  allowedOrigins :: "string list"
  allowedHeaders :: "string list"

record BucketProps =
  bucketName :: string
  websiteIndexDocument :: "string option"
  publicReadAccess :: bool
  blockPublicAccess :: "BlockPublicAccess option"
  lifecycleRules :: "LifecycleRule list"
  cors :: "CorsRule list"
  removalPolicy :: RemovalPolicy

datatype Runtime = PYTHON_3_11

record LayerVersionProps =
  layerCode :: string
  compatibleRuntimes :: "Runtime list"
  layerDescription :: string

record FunctionProps =
  runtime :: Runtime
  handler :: string
  codeAsset :: string
  timeout :: Duration
  memorySize :: nat
  layers :: "LayerVersionProps list"
  environment :: "(string \<times> string) list"

subsection \<open>The resources of \<open>Arrl10GhzWebStack\<close>\<close>

text \<open>
  The template literal \<open>`arrl-10ghz-web-${this.account}-${this.region}`\<close> is string
  concatenation. A property the source does not pass keeps the library's default: no
  lifecycle rule, no CORS rule, no public read access.
\<close>

definition websiteBucket :: "string \<Rightarrow> string \<Rightarrow> BucketProps" where
  "websiteBucket account region =
     \<lparr>bucketName = ''arrl-10ghz-web-'' @ account @ ''-'' @ region,
      websiteIndexDocument = Some ''index.html'',
      publicReadAccess = True,
      blockPublicAccess = Some BLOCK_ACLS,
      lifecycleRules = [],
      cors = [],
      removalPolicy = DESTROY\<rparr>"

definition filesBucket :: "string \<Rightarrow> string \<Rightarrow> BucketProps" where
  "filesBucket account region =
     \<lparr>bucketName = ''arrl-10ghz-files-'' @ account @ ''-'' @ region,
      websiteIndexDocument = None,
      publicReadAccess = False,
      blockPublicAccess = None,
      lifecycleRules =
        [\<lparr>ruleId = Some ''DeleteAfter1Day'',
          enabled = None,
          expiration = Some (days 1),
          rulePrefix = None\<rparr>],
      cors =
        [\<lparr>allowedMethods = [GET, POST, PUT],
          allowedOrigins = [''*''],
          allowedHeaders = [''*'']\<rparr>],
      removalPolicy = DESTROY\<rparr>"

definition pythonLayer :: LayerVersionProps where
  "pythonLayer =
     \<lparr>layerCode = ''lambda/layers/python'',
      compatibleRuntimes = [PYTHON_3_11],
      layerDescription = ''Python dependencies for ARRL contest processing''\<rparr>"

definition processFunction :: "string \<Rightarrow> string \<Rightarrow> FunctionProps" where
  "processFunction account region =
     \<lparr>runtime = PYTHON_3_11,
      handler = ''process.handler'',
      codeAsset = ''lambda/functions/process'',
      timeout = minutes 5,
      memorySize = 1024,
      layers = [pythonLayer],
      environment = [(''FILES_BUCKET'', bucketName (filesBucket account region))]\<rparr>"

text \<open>
  The REST API, the deployment of the frontend files and the CloudFront distribution
  hold no state of their own and are left out: nothing proved below depends on them.
\<close>

subsection \<open>What the library makes of a lifecycle rule\<close>

text \<open>
  \<open>s3.Bucket\<close> renders each \<open>LifecycleRule\<close> into a rule of the bucket's
  \<open>LifecycleConfiguration\<close>: \<open>enabled\<close> defaults to true and becomes the status,
  \<open>expiration\<close> becomes \<open>ExpirationInDays\<close> through \<open>toDays()\<close>, \<open>id\<close> and
  \<open>prefix\<close> are copied. A conversion that throws aborts the synthesis of the stack.
  This is code of \<open>aws-cdk-lib\<close>, not of the repository; only the four properties above
  are rendered here.
\<close>

datatype RuleStatus = Enabled | Disabled

record CfnRule =
  cfnId :: "string option"
  status :: RuleStatus
  expirationInDays :: "nat option"
  cfnPrefix :: "string option"

definition parseLifecycleRule :: "LifecycleRule \<Rightarrow> cdk_error + CfnRule" where
  "parseLifecycleRule rule =
     (let st = (case enabled rule of None \<Rightarrow> Enabled
                | Some b \<Rightarrow> if b then Enabled else Disabled)
      in case expiration rule of
           None \<Rightarrow>
             Inr \<lparr>cfnId = ruleId rule, status = st, expirationInDays = None,
                  cfnPrefix = rulePrefix rule\<rparr>
         | Some d \<Rightarrow>
             (case toDays d of
                Inl e \<Rightarrow> Inl e
              | Inr n \<Rightarrow>
                  Inr \<lparr>cfnId = ruleId rule, status = st, expirationInDays = Some n,
                       cfnPrefix = rulePrefix rule\<rparr>))"

fun parseLifecycleRules :: "LifecycleRule list \<Rightarrow> cdk_error + CfnRule list" where
  "parseLifecycleRules [] = Inr []"
| "parseLifecycleRules (r # rs) =
     (case parseLifecycleRule r of
        Inl e \<Rightarrow> Inl e
      | Inr c \<Rightarrow>
          (case parseLifecycleRules rs of
             Inl e \<Rightarrow> Inl e
           | Inr cs \<Rightarrow> Inr (c # cs)))"

definition parseLifecycleConfiguration :: "BucketProps \<Rightarrow> cdk_error + CfnRule list" where
  "parseLifecycleConfiguration props = parseLifecycleRules (lifecycleRules props)"

text \<open>
  The storage service applies an enabled rule to every object whose key starts with the
  rule's prefix (to every object when the rule has none). An object is due for expiry
  once its age in days reaches the \<open>ExpirationInDays\<close> of some rule that applies to it.
\<close>

definition ruleApplies :: "CfnRule \<Rightarrow> string \<Rightarrow> bool" where
  "ruleApplies r key =
     (status r = Enabled \<and> (case cfnPrefix r of None \<Rightarrow> True | Some p \<Rightarrow> prefix p key))"

fun expirationDaysFor :: "CfnRule list \<Rightarrow> string \<Rightarrow> nat option" where
  "expirationDaysFor [] key = None"
| "expirationDaysFor (r # rs) key =
     (case (if ruleApplies r key then expirationInDays r else None) of
        None \<Rightarrow> expirationDaysFor rs key
      | Some n \<Rightarrow>
          (case expirationDaysFor rs key of
             None \<Rightarrow> Some n
           | Some m \<Rightarrow> Some (min n m)))"

definition objectExpired :: "CfnRule list \<Rightarrow> string \<Rightarrow> nat \<Rightarrow> bool" where
  "objectExpired rules key ageDays =
     (case expirationDaysFor rules key of None \<Rightarrow> False | Some n \<Rightarrow> n \<le> ageDays)"

section \<open>GeoMath: decoding a grid square\<close>

text \<open>
  Modelled from the spec: \<open>decode\<close> of GeoMath. It belongs to the Lambda handler
  (\<open>lambda/functions/process/process.py\<close>) that the stack above deploys; the handler is
  not among the sources. The spec gives the shape of a locator (4 or 6 characters,
  letter pair, digit pair, optional letter pair, as in \<open>FN31\<close> and \<open>FN31pr\<close>), the
  result (the centre of the locator's cell) and the failure (\<open>InvalidGridSquare\<close> on a
  wrong length or an out-of-range letter or digit, as in \<open>ZZ99\<close>). The ranges and the
  cell sizes are those of the Maidenhead system the spec names: 18 by 18 fields of
  20 by 10 degrees (letters A to R), 10 by 10 squares per field (digits), 24 by 24
  subsquares per square (letters A to X). Letters are read in either case, since the
  spec's own example \<open>FN31pr\<close> is in mixed case and the Canonicalizer hands on
  uppercased grids. Coordinates are exact rationals in degrees, latitude first; the
  rounding of a floating-point implementation is outside the model.
\<close>

datatype geo_error = InvalidGridSquare

text \<open>
  Modelled from the spec: the decoder as a program computes it, from character codes.
  A locator of any other length than 4 or 6 reaches the last equation.
\<close>

definition ord :: "char \<Rightarrow> nat" where
  "ord c = of_char c"

definition letterValue :: "nat \<Rightarrow> char \<Rightarrow> nat option" where
  "letterValue count c =
     (if ord CHR ''A'' \<le> ord c \<and> ord c < ord CHR ''A'' + count
      then Some (ord c - ord CHR ''A'')
      else if ord CHR ''a'' \<le> ord c \<and> ord c < ord CHR ''a'' + count
      then Some (ord c - ord CHR ''a'')
      else None)"

definition digitValue :: "char \<Rightarrow> nat option" where
  "digitValue c =
     (if ord CHR ''0'' \<le> ord c \<and> ord c \<le> ord CHR ''9''
      then Some (ord c - ord CHR ''0'')
      else None)"

definition squareOrigin :: "char \<Rightarrow> char \<Rightarrow> char \<Rightarrow> char \<Rightarrow> (rat \<times> rat) option" where
  "squareOrigin f1 f2 d1 d2 =
     (case (letterValue 18 f1, letterValue 18 f2, digitValue d1, digitValue d2) of
        (Some a, Some b, Some c, Some d) \<Rightarrow>
          Some (of_nat (10 * b + d) - 90, of_nat (20 * a + 2 * c) - 180)
      | _ \<Rightarrow> None)"

definition subsquareOffset :: "char \<Rightarrow> char \<Rightarrow> (rat \<times> rat) option" where
  "subsquareOffset s1 s2 =
     (case (letterValue 24 s1, letterValue 24 s2) of
        (Some a, Some b) \<Rightarrow> Some (of_nat b / 24, of_nat a / 12)
      | _ \<Rightarrow> None)"

fun decode :: "string \<Rightarrow> geo_error + (rat \<times> rat)" where
  "decode [f1, f2, d1, d2] =
     (case squareOrigin f1 f2 d1 d2 of
        None \<Rightarrow> Inl InvalidGridSquare
      | Some (lat, lon) \<Rightarrow> Inr (lat + 1 / 2, lon + 1))"
| "decode [f1, f2, d1, d2, s1, s2] =
     (case squareOrigin f1 f2 d1 d2 of
        None \<Rightarrow> Inl InvalidGridSquare
      | Some (lat, lon) \<Rightarrow>
          (case subsquareOffset s1 s2 of
             None \<Rightarrow> Inl InvalidGridSquare
           | Some (dlat, dlon) \<Rightarrow> Inr (lat + dlat + 1 / 48, lon + dlon + 1 / 24)))"
| "decode grid = Inl InvalidGridSquare"

subsection \<open>The locator grammar and the cells, in the spec's words\<close>

text \<open>
  Modelled from the spec: the GridSquare of the data model. A character's index is its
  place in the alphabet of its pair; a locator is valid when it has 4 or 6 characters and
  every character has an index in the alphabet of its place.
\<close>

fun position :: "'a list \<Rightarrow> 'a \<Rightarrow> nat option" where
  "position [] x = None"
| "position (y # ys) x = (if x = y then Some 0 else map_option Suc (position ys x))"

definition letterIndex :: "string \<Rightarrow> string \<Rightarrow> char \<Rightarrow> nat option" where
  "letterIndex upper lower c =
     (case position upper c of Some i \<Rightarrow> Some i | None \<Rightarrow> position lower c)"

definition fieldIndex :: "char \<Rightarrow> nat option" where
  "fieldIndex = letterIndex ''ABCDEFGHIJKLMNOPQR'' ''abcdefghijklmnopqr''"

definition squareIndex :: "char \<Rightarrow> nat option" where
  "squareIndex = position ''0123456789''"

definition subsquareIndex :: "char \<Rightarrow> nat option" where
  "subsquareIndex = letterIndex ''ABCDEFGHIJKLMNOPQRSTUVWX'' ''abcdefghijklmnopqrstuvwx''"

definition validGridSquare :: "string \<Rightarrow> bool" where
  "validGridSquare g =
     ((length g = 4 \<or> length g = 6)
      \<and> list_all (\<lambda>c. fieldIndex c \<noteq> None) (take 2 g)
      \<and> list_all (\<lambda>c. squareIndex c \<noteq> None) (take 2 (drop 2 g))
      \<and> list_all (\<lambda>c. subsquareIndex c \<noteq> None) (drop 4 g))"

text \<open>
  Modelled from the spec: the cell of a locator. The world is cut into 18 by 18 fields,
  a field into 10 by 10 squares, a square into 24 by 24 subsquares; each pair of the
  locator picks the cell with its two indices, longitude first. The centre of a cell is
  the midpoint of its bounds.
\<close>

record GridCell =
  south :: rat
  west :: rat
  north :: rat
  east :: rat

definition world :: GridCell where
  "world = \<lparr>south = -90, west = -180, north = 90, east = 180\<rparr>"

definition subdivide :: "nat \<Rightarrow> GridCell \<Rightarrow> nat \<Rightarrow> nat \<Rightarrow> GridCell" where
  "subdivide k c i j =
     (let w = (east c - west c) / of_nat k; h = (north c - south c) / of_nat k
      in \<lparr>south = south c + h * of_nat j, west = west c + w * of_nat i,
          north = south c + h * of_nat (Suc j), east = west c + w * of_nat (Suc i)\<rparr>)"

fun cellIndices :: "string \<Rightarrow> ((nat \<times> nat) list) option" where
  "cellIndices [f1, f2, d1, d2] =
     (case (fieldIndex f1, fieldIndex f2, squareIndex d1, squareIndex d2) of
        (Some a, Some b, Some c, Some d) \<Rightarrow> Some [(a, b), (c, d)]
      | _ \<Rightarrow> None)"
| "cellIndices [f1, f2, d1, d2, s1, s2] =
     (case (fieldIndex f1, fieldIndex f2, squareIndex d1, squareIndex d2,
            subsquareIndex s1, subsquareIndex s2) of
        (Some a, Some b, Some c, Some d, Some e, Some f) \<Rightarrow> Some [(a, b), (c, d), (e, f)]
      | _ \<Rightarrow> None)"
| "cellIndices g = None"

definition cellOf :: "string \<Rightarrow> GridCell option" where
  "cellOf g =
     map_option
       (foldl (\<lambda>cell (k, i, j). subdivide k cell i j) world \<circ> zip [18, 10, 24])
       (cellIndices g)"

definition centre :: "GridCell \<Rightarrow> rat \<times> rat" where
  "centre c = ((south c + north c) / 2, (west c + east c) / 2)"

text \<open>
  An alphabet whose character codes are consecutive from \<open>a\<close> on: what lets the
  decoder subtract a base code where the grammar looks a character up.
\<close>

fun consecutive :: "nat \<Rightarrow> string \<Rightarrow> bool" where
  "consecutive a [] = True"
| "consecutive a (x # xs) = (ord x = a \<and> consecutive (Suc a) xs)"

section \<open>GeoMath: distance and bearing between two grid squares\<close>

















section \<open>Properties of the stack\<close>

lemma toDays_days: "toDays (days n) = Inr n"
  by (simp add: toDays_def days_def)

lemma websiteBucket_never_expires:
  "parseLifecycleConfiguration (websiteBucket account region) = Inr []"
  by (simp add: parseLifecycleConfiguration_def websiteBucket_def)

lemma filesBucket_rules:
  "parseLifecycleConfiguration (filesBucket account region) =
     Inr [\<lparr>cfnId = Some ''DeleteAfter1Day'', status = Enabled,
           expirationInDays = Some 1, cfnPrefix = None\<rparr>]"
  by (simp add: parseLifecycleConfiguration_def filesBucket_def parseLifecycleRule_def
      toDays_days)

text \<open>
  Claim C10. The stack gives the bucket for temporary files one lifecycle rule, named
  \<open>DeleteAfter1Day\<close>, which is enabled, has no prefix filter and expires objects after
  one day: whatever the account, the region and the object's key, the rule applies, and
  the object is due for expiry exactly from an age of one day on.
\<close>

theorem filesBucket_expires_every_object_after_1_day:
  "\<exists>rule r.
      lifecycleRules (filesBucket account region) = [rule]
    \<and> ruleId rule = Some ''DeleteAfter1Day''
    \<and> expiration rule = Some (days 1)
    \<and> parseLifecycleConfiguration (filesBucket account region) = Inr [r]
    \<and> ruleApplies r key
    \<and> expirationInDays r = Some 1
    \<and> expirationDaysFor [r] key = Some 1
    \<and> objectExpired [r] key ageDays = (1 \<le> ageDays)"
  by (simp add: filesBucket_rules ruleApplies_def objectExpired_def)
    (simp add: filesBucket_def)

section \<open>Properties of the decoder\<close>

subsection \<open>Character codes against alphabets\<close>

lemma ord_eq_iff: "(c = d) = (ord c = ord d)"
  by (simp add: ord_def)

lemma position_consecutive:
  "consecutive a xs \<Longrightarrow>
   position xs c = (if a \<le> ord c \<and> ord c < a + length xs then Some (ord c - a) else None)"
proof (induction xs arbitrary: a)
  case Nil
  then show ?case by simp
next
  case (Cons x xs)
  then have x: "ord x = a" and rest: "consecutive (Suc a) xs" by simp_all
  show ?case
  proof (cases "c = x")
    case True
    then show ?thesis using x by simp
  next
    case False
    then have "ord c \<noteq> a" using x ord_eq_iff by metis
    then show ?thesis using False Cons.IH[OF rest] by (auto simp: Suc_diff_Suc)
  qed
qed

lemma letterValue_fieldIndex: "letterValue 18 c = fieldIndex c"
proof -
  have u: "consecutive 65 ''ABCDEFGHIJKLMNOPQR''" by (simp add: ord_def)
  have l: "consecutive 97 ''abcdefghijklmnopqr''" by (simp add: ord_def)
  have a: "ord CHR ''A'' = 65" "ord CHR ''a'' = 97" by (simp_all add: ord_def)
  show ?thesis
    unfolding letterValue_def fieldIndex_def letterIndex_def
      position_consecutive[OF u] position_consecutive[OF l] a
    by simp
qed

lemma letterValue_subsquareIndex: "letterValue 24 c = subsquareIndex c"
proof -
  have u: "consecutive 65 ''ABCDEFGHIJKLMNOPQRSTUVWX''" by (simp add: ord_def)
  have l: "consecutive 97 ''abcdefghijklmnopqrstuvwx''" by (simp add: ord_def)
  have a: "ord CHR ''A'' = 65" "ord CHR ''a'' = 97" by (simp_all add: ord_def)
  show ?thesis
    unfolding letterValue_def subsquareIndex_def letterIndex_def
      position_consecutive[OF u] position_consecutive[OF l] a
    by simp
qed

lemma digitValue_squareIndex: "digitValue c = squareIndex c"
proof -
  have d: "consecutive 48 ''0123456789''" by (simp add: ord_def)
  have a: "ord CHR ''0'' = 48" "ord CHR ''9'' = 57" by (simp_all add: ord_def)
  show ?thesis
    unfolding digitValue_def squareIndex_def position_consecutive[OF d] a
    by auto
qed

subsection \<open>Indices stay inside their alphabets\<close>

lemma position_bound: "position xs c = Some i \<Longrightarrow> i < length xs"
  by (induction xs arbitrary: i) (auto split: if_splits)

lemma letterIndex_bound:
  assumes "letterIndex upper lower c = Some i" and "length upper = n" and "length lower = n"
  shows "i < n"
proof (cases "position upper c")
  case None
  with assms(1) have "position lower c = Some i" by (simp add: letterIndex_def)
  then show ?thesis using position_bound assms(3) by fastforce
next
  case (Some k)
  with assms(1) have "position upper c = Some i" by (simp add: letterIndex_def)
  then show ?thesis using position_bound assms(2) by fastforce
qed

lemma fieldIndex_bound: "fieldIndex c = Some i \<Longrightarrow> i < 18"
  unfolding fieldIndex_def by (erule letterIndex_bound) simp_all

lemma subsquareIndex_bound: "subsquareIndex c = Some i \<Longrightarrow> i < 24"
  unfolding subsquareIndex_def by (erule letterIndex_bound) simp_all

lemma squareIndex_bound: "squareIndex c = Some i \<Longrightarrow> i < 10"
  unfolding squareIndex_def by (drule position_bound) simp

subsection \<open>The decoder against the grammar and the cells\<close>

lemma decode_length: "decode g = Inr p \<Longrightarrow> length g = 4 \<or> length g = 6"
  by (cases g rule: decode.cases) auto

lemma cellIndices_length: "cellIndices g = Some ps \<Longrightarrow> length g = 4 \<or> length g = 6"
  by (cases g rule: cellIndices.cases) auto

lemma valid_iff_cellIndices: "validGridSquare g = (cellIndices g \<noteq> None)"
  by (cases g rule: cellIndices.cases) (auto simp: validGridSquare_def split: option.splits)

lemma squareOrigin_indices:
  "squareOrigin f1 f2 d1 d2 =
     (case (fieldIndex f1, fieldIndex f2, squareIndex d1, squareIndex d2) of
        (Some a, Some b, Some c, Some d) \<Rightarrow>
          Some (of_nat (10 * b + d) - 90, of_nat (20 * a + 2 * c) - 180)
      | _ \<Rightarrow> None)"
  by (simp add: squareOrigin_def letterValue_fieldIndex digitValue_squareIndex)

lemma subsquareOffset_indices:
  "subsquareOffset s1 s2 =
     (case (subsquareIndex s1, subsquareIndex s2) of
        (Some a, Some b) \<Rightarrow> Some (of_nat b / 24, of_nat a / 12)
      | _ \<Rightarrow> None)"
  by (simp add: subsquareOffset_def letterValue_subsquareIndex)

lemma centre_square:
  "centre (subdivide 10 (subdivide 18 world a b) c d) =
     (of_nat (10 * b + d) - 90 + 1 / 2, of_nat (20 * a + 2 * c) - 180 + 1)"
  by (simp add: centre_def subdivide_def world_def Let_def field_simps)

lemma centre_subsquare:
  "centre (subdivide 24 (subdivide 10 (subdivide 18 world a b) c d) e f) =
     (of_nat (10 * b + d) - 90 + of_nat f / 24 + 1 / 48,
      of_nat (20 * a + 2 * c) - 180 + of_nat e / 12 + 1 / 24)"
  by (simp add: centre_def subdivide_def world_def Let_def field_simps)

lemma decode_centre:
  assumes "cellOf g = Some cell"
  shows "decode g = Inr (centre cell)"
proof (cases g rule: cellIndices.cases)
  case (1 f1 f2 d1 d2)
  with assms obtain a b c d where
    idx: "fieldIndex f1 = Some a" "fieldIndex f2 = Some b"
      "squareIndex d1 = Some c" "squareIndex d2 = Some d" and
    cell: "cell = subdivide 10 (subdivide 18 world a b) c d"
    by (auto simp: cellOf_def split: option.splits)
  show ?thesis
    unfolding 1 cell centre_square by (simp add: squareOrigin_indices idx)
next
  case (2 f1 f2 d1 d2 s1 s2)
  with assms obtain a b c d e f where
    idx: "fieldIndex f1 = Some a" "fieldIndex f2 = Some b"
      "squareIndex d1 = Some c" "squareIndex d2 = Some d"
      "subsquareIndex s1 = Some e" "subsquareIndex s2 = Some f" and
    cell: "cell = subdivide 24 (subdivide 10 (subdivide 18 world a b) c d) e f"
    by (auto simp: cellOf_def split: option.splits)
  show ?thesis
    unfolding 2 cell centre_subsquare
    by (simp add: squareOrigin_indices subsquareOffset_indices idx)
qed (use assms in \<open>simp_all add: cellOf_def\<close>)

lemma decode_malformed:
  "cellIndices g = None \<Longrightarrow> decode g = Inl InvalidGridSquare"
  by (cases g rule: cellIndices.cases)
     (auto simp: squareOrigin_indices subsquareOffset_indices split: option.splits)

subsection \<open>No truncation\<close>

text \<open>
  The centre of a subsquare is never the centre of the square around it: 24 subsquares
  span the square, so its centre lies on the line between the twelfth and the thirteenth.
\<close>

lemma subsquare_centre_off_square_centre: "of_nat a / 12 + 1 / 24 \<noteq> (1::rat)"
proof
  assume "of_nat a / 12 + 1 / 24 = (1::rat)"
  then have "(of_nat (2 * a + 1)::rat) = of_nat 24" by (simp add: field_simps)
  then have "2 * a + 1 = 24" by (simp only: of_nat_eq_iff)
  then show False by presburger
qed

lemma decode_not_truncated:
  assumes "n < length g" and "decode (take n g) = Inr p"
  shows "decode g \<noteq> Inr p"
proof
  assume full: "decode g = Inr p"
  from decode_length[OF assms(2)] assms(1) have n: "n = 4 \<or> n = 6" by auto
  from decode_length[OF full] have "length g = 4 \<or> length g = 6" .
  with n assms(1) have n4: "n = 4" and l6: "length g = 6" by auto
  from l6 obtain f1 f2 d1 d2 s1 s2 where g: "g = [f1, f2, d1, d2, s1, s2]"
    by (cases g rule: decode.cases) auto
  from assms(2) full show False
    unfolding g n4
    by (auto simp: subsquareOffset_def subsquare_centre_off_square_centre
        split: option.splits)
qed

subsection \<open>Cells lie inside the cell they divide\<close>



lemma world_inside: "south world < north world \<and> west world < east world"
  by (simp add: world_def)


subsection \<open>One centre, one locator\<close>

text \<open>
  Two locators with the same centre name the same cell: they have the same length and
  the same indices, so they differ at most in the case of their letters.
\<close>

lemma decode_indices:
  assumes "decode g = Inr p"
  shows "(\<exists>a b c d. cellIndices g = Some [(a, b), (c, d)] \<and> a < 18 \<and> b < 18 \<and> c < 10 \<and> d < 10
            \<and> p = (of_nat (10 * b + d) - 90 + 1 / 2, of_nat (20 * a + 2 * c) - 180 + 1))
       \<or> (\<exists>a b c d e f. cellIndices g = Some [(a, b), (c, d), (e, f)]
            \<and> a < 18 \<and> b < 18 \<and> c < 10 \<and> d < 10 \<and> e < 24 \<and> f < 24
            \<and> p = (of_nat (10 * b + d) - 90 + of_nat f / 24 + 1 / 48,
                   of_nat (20 * a + 2 * c) - 180 + of_nat e / 12 + 1 / 24))"
proof (cases g rule: cellIndices.cases)
  case (1 f1 f2 d1 d2)
  with assms obtain a b c d where
    idx: "fieldIndex f1 = Some a" "fieldIndex f2 = Some b"
      "squareIndex d1 = Some c" "squareIndex d2 = Some d"
    by (auto simp: squareOrigin_indices split: option.splits)
  have ab: "a < 18" "b < 18" and cd: "c < 10" "d < 10"
    using idx fieldIndex_bound squareIndex_bound by blast+
  from assms show ?thesis unfolding 1 using ab cd by (simp add: squareOrigin_indices idx)
next
  case (2 f1 f2 d1 d2 s1 s2)
  with assms obtain a b c d e f where
    idx: "fieldIndex f1 = Some a" "fieldIndex f2 = Some b"
      "squareIndex d1 = Some c" "squareIndex d2 = Some d"
      "subsquareIndex s1 = Some e" "subsquareIndex s2 = Some f"
    by (auto simp: squareOrigin_indices subsquareOffset_indices split: option.splits)
  have ab: "a < 18" "b < 18" and cd: "c < 10" "d < 10" and ef: "e < 24" "f < 24"
    using idx fieldIndex_bound squareIndex_bound subsquareIndex_bound by blast+
  from assms show ?thesis unfolding 2 using ab cd ef
    by (simp add: squareOrigin_indices subsquareOffset_indices idx)
qed (use assms in simp_all)

lemma digit_inj:
  fixes q r :: nat
  assumes "r < k" "r' < k" "k * q + r = k * q' + r'"
  shows "q = q' \<and> r = r'"
proof -
  have "(k * q + r) div k = q" "(k * q' + r') div k = q'" using assms(1,2) by simp_all
  with assms(3) have q: "q = q'" by simp
  with assms(3) show ?thesis by simp
qed

lemma lat4_inj:
  assumes "(of_nat (10 * b + d) :: rat) - 90 + 1 / 2 = of_nat (10 * b' + d') - 90 + 1 / 2"
    "d < 10" "d' < 10"
  shows "b = b' \<and> d = d'"
proof -
  from assms(1) have "10 * b + d = 10 * b' + d'" by simp
  with assms(2,3) show ?thesis using digit_inj by blast
qed

lemma lon4_inj:
  assumes "(of_nat (20 * a + 2 * c) :: rat) - 180 + 1 = of_nat (20 * a' + 2 * c') - 180 + 1"
    "c < 10" "c' < 10"
  shows "a = a' \<and> c = c'"
proof -
  from assms(1) have "20 * a + 2 * c = 20 * a' + 2 * c'" by simp
  then have "10 * a + c = 10 * a' + c'" by simp
  with assms(2,3) show ?thesis using digit_inj by blast
qed

lemma lat6_inj:
  assumes "(of_nat (10 * b + d) :: rat) - 90 + of_nat f / 24 + 1 / 48
         = of_nat (10 * b' + d') - 90 + of_nat f' / 24 + 1 / 48"
    "d < 10" "d' < 10" "f < 24" "f' < 24"
  shows "b = b' \<and> d = d' \<and> f = f'"
proof -
  from assms(1) have "(of_nat (24 * (10 * b + d) + f) :: rat) = of_nat (24 * (10 * b' + d') + f')"
    by (simp add: field_simps)
  then have "24 * (10 * b + d) + f = 24 * (10 * b' + d') + f'" by (simp only: of_nat_eq_iff)
  with assms(4,5) have "10 * b + d = 10 * b' + d' \<and> f = f'" by (rule digit_inj)
  with assms(2,3) show ?thesis using digit_inj by blast
qed

lemma lon6_inj:
  assumes "(of_nat (20 * a + 2 * c) :: rat) - 180 + of_nat e / 12 + 1 / 24
         = of_nat (20 * a' + 2 * c') - 180 + of_nat e' / 12 + 1 / 24"
    "c < 10" "c' < 10" "e < 24" "e' < 24"
  shows "a = a' \<and> c = c' \<and> e = e'"
proof -
  from assms(1) have "(of_nat (24 * (10 * a + c) + e) :: rat) = of_nat (24 * (10 * a' + c') + e')"
    by (simp add: field_simps)
  then have "24 * (10 * a + c) + e = 24 * (10 * a' + c') + e'" by (simp only: of_nat_eq_iff)
  with assms(4,5) have "10 * a + c = 10 * a' + c' \<and> e = e'" by (rule digit_inj)
  with assms(2,3) show ?thesis using digit_inj by blast
qed

lemma lat46_neq:
  "(of_nat x :: rat) - 90 + 1 / 2 \<noteq> of_nat x' - 90 + of_nat f / 24 + 1 / 48"
proof
  assume "(of_nat x :: rat) - 90 + 1 / 2 = of_nat x' - 90 + of_nat f / 24 + 1 / 48"
  then have "(of_nat (48 * x + 24) :: rat) = of_nat (48 * x' + 2 * f + 1)"
    by (simp add: field_simps)
  then have "48 * x + 24 = 48 * x' + 2 * f + 1" by (simp only: of_nat_eq_iff)
  then have "even (48 * x' + 2 * f + 1)" by (metis even_add even_mult_iff even_numeral)
  then show False by simp
qed

lemma decode_unique:
  assumes "decode g = Inr p" and "decode h = Inr p"
  shows "cellIndices g = cellIndices h"
proof -
  consider
    (sq) a b c d where "cellIndices g = Some [(a, b), (c, d)]" "c < 10" "d < 10"
      "p = (of_nat (10 * b + d) - 90 + 1 / 2, of_nat (20 * a + 2 * c) - 180 + 1)"
  | (sub) a b c d e f where "cellIndices g = Some [(a, b), (c, d), (e, f)]"
      "c < 10" "d < 10" "e < 24" "f < 24"
      "p = (of_nat (10 * b + d) - 90 + of_nat f / 24 + 1 / 48,
            of_nat (20 * a + 2 * c) - 180 + of_nat e / 12 + 1 / 24)"
    using decode_indices[OF assms(1)] by blast
  then show ?thesis
  proof cases
    case sq
    from decode_indices[OF assms(2)] show ?thesis
    proof (elim disjE exE conjE)
      fix a' b' c' d'
      assume h: "cellIndices h = Some [(a', b'), (c', d')]" "c' < 10" "d' < 10"
        "p = (of_nat (10 * b' + d') - 90 + 1 / 2, of_nat (20 * a' + 2 * c') - 180 + 1)"
      with sq have "b = b' \<and> d = d'" "a = a' \<and> c = c'"
        using lat4_inj[of b d b' d'] lon4_inj[of a c a' c'] by simp_all
      with sq h show ?thesis by simp
    next
      fix a' b' c' d' e' f'
      assume "p = (of_nat (10 * b' + d') - 90 + of_nat f' / 24 + 1 / 48,
                   of_nat (20 * a' + 2 * c') - 180 + of_nat e' / 12 + 1 / 24)"
      with sq(4) show ?thesis using lat46_neq[of "10 * b + d" "10 * b' + d'" f'] by simp
    qed
  next
    case sub
    from decode_indices[OF assms(2)] show ?thesis
    proof (elim disjE exE conjE)
      fix a' b' c' d'
      assume "p = (of_nat (10 * b' + d') - 90 + 1 / 2, of_nat (20 * a' + 2 * c') - 180 + 1)"
      with sub(6) show ?thesis using lat46_neq[of "10 * b' + d'" "10 * b + d" f] by simp
    next
      fix a' b' c' d' e' f'
      assume h: "cellIndices h = Some [(a', b'), (c', d'), (e', f')]"
        "c' < 10" "d' < 10" "e' < 24" "f' < 24"
        "p = (of_nat (10 * b' + d') - 90 + of_nat f' / 24 + 1 / 48,
              of_nat (20 * a' + 2 * c') - 180 + of_nat e' / 12 + 1 / 24)"
      with sub have "b = b' \<and> d = d' \<and> f = f'" "a = a' \<and> c = c' \<and> e = e'"
        using lat6_inj[of b d f b' d' f'] lon6_inj[of a c e a' c' e'] by simp_all
      with sub h show ?thesis by simp
    qed
  qed
qed

subsection \<open>The decoder's contract\<close>

text \<open>
  Claim C7. \<open>decode\<close> maps every valid 4- or 6-character locator to the centre of its
  cell, and fails with \<open>InvalidGridSquare\<close> on every other string: a wrong length, or
  a letter or digit outside its range. No string is decoded as one of its proper
  prefixes would be: where a prefix decodes, the whole string either fails or decodes to
  a different point.
\<close>

theorem decode_centre_or_InvalidGridSquare:
  "(validGridSquare g \<longrightarrow> (\<exists>cell. cellOf g = Some cell \<and> decode g = Inr (centre cell)))
   \<and> (\<not> validGridSquare g \<longrightarrow> decode g = Inl InvalidGridSquare)
   \<and> (\<forall>n p. n < length g \<and> decode (take n g) = Inr p \<longrightarrow> decode g \<noteq> Inr p)"
proof (intro conjI impI allI)
  assume "validGridSquare g"
  then obtain ps where "cellIndices g = Some ps"
    by (auto simp: valid_iff_cellIndices)
  then obtain cell where "cellOf g = Some cell" by (simp add: cellOf_def)
  then show "\<exists>cell. cellOf g = Some cell \<and> decode g = Inr (centre cell)"
    using decode_centre by blast
next
  assume "\<not> validGridSquare g"
  then show "decode g = Inl InvalidGridSquare"
    by (simp add: valid_iff_cellIndices decode_malformed)
next
  fix n p
  assume "n < length g \<and> decode (take n g) = Inr p"
  then show "decode g \<noteq> Inr p" using decode_not_truncated by blast
qed

theorem decode_witness:
  "validGridSquare ''FN31pr'' \<and> decode ''FN31pr'' = Inr (2003 / 48, - (1745 / 24))
   \<and> \<not> validGridSquare ''ZZ99'' \<and> decode ''ZZ99'' = Inl InvalidGridSquare
   \<and> \<not> validGridSquare ''FN31p'' \<and> decode ''FN31p'' = Inl InvalidGridSquare
   \<and> decode (take 4 ''FN31pr'') = Inr (83 / 2, - 73) \<and> decode ''FN31pr'' \<noteq> Inr (83 / 2, - 73)"
proof -
  have idx: "fieldIndex CHR ''F'' = Some 5" "fieldIndex CHR ''N'' = Some 13"
    "squareIndex CHR ''3'' = Some 3" "squareIndex CHR ''1'' = Some 1"
    "subsquareIndex CHR ''p'' = Some 15" "subsquareIndex CHR ''r'' = Some 17"
    "fieldIndex CHR ''Z'' = None"
    by (simp_all add: fieldIndex_def squareIndex_def subsquareIndex_def letterIndex_def)
  have v: "validGridSquare ''FN31pr''" and z: "\<not> validGridSquare ''ZZ99''"
    and s: "\<not> validGridSquare ''FN31p''"
    by (simp_all add: validGridSquare_def idx)
  from decode_centre_or_InvalidGridSquare[of "''FN31pr''"] v
  obtain cell where c: "cellOf ''FN31pr'' = Some cell" "decode ''FN31pr'' = Inr (centre cell)"
    by blast
  from c(1) have "cell = subdivide 24 (subdivide 10 (subdivide 18 world 5 13) 3 1) 15 17"
    by (simp add: cellOf_def idx)
  then have "centre cell = (2003 / 48, - (1745 / 24))"
    by (simp add: centre_def subdivide_def world_def)
  with c(2) have full: "decode ''FN31pr'' = Inr (2003 / 48, - (1745 / 24))" by simp
  have short: "decode (take 4 ''FN31pr'') = Inr (83 / 2, - 73)"
    by (simp add: squareOrigin_indices idx)
  have "4 < length ''FN31pr''" by simp
  with short decode_centre_or_InvalidGridSquare[of "''FN31pr''"]
  have "decode ''FN31pr'' \<noteq> Inr (83 / 2, - 73)" by blast
  with v z s full short decode_centre_or_InvalidGridSquare[of "''ZZ99''"]
    decode_centre_or_InvalidGridSquare[of "''FN31p''"]
  show ?thesis by blast
qed

section \<open>Properties of distance and bearing\<close>

subsection \<open>The distance is symmetric\<close>





subsection \<open>Angles\<close>





subsection \<open>Bearings along a meridian\<close>











subsection \<open>Bearings along a parallel\<close>









subsection \<open>The reverse bearing\<close>






end
